theory Spec2Isabelle
  imports Complex_Main
begin

section \<open>Numbers, errors and the arbitrary-precision library\<close>

text \<open>
  The two scripts \<^verbatim>\<open>main.py\<close> and \<^verbatim>\<open>XPB_plot.py\<close> compute with Python floats and
  with \<^verbatim>\<open>mpmath\<close> numbers. Both are modelled by the reals: rounding, overflow and the
  working precision of \<^verbatim>\<open>mpmath\<close> are not part of the model. Every exception the
  source can raise is a value of \<open>error\<close>:
  \<^item> \<open>ZeroDivisionError\<close>: a division by zero (Python floats and \<^verbatim>\<open>mpf\<close> both raise
    it), or a zero raised to a negative power;
  \<^item> \<open>ValueError\<close>, \<open>NoConvergence\<close>: failures of the library (\<^verbatim>\<open>mpmath\<close> raises the
    first at a pole of the gamma function, the second when a series does not converge);
  \<^item> \<open>RuntimeError nu\<close>: the error raised at the end of \<^verbatim>\<open>gamma_eff\<close>; its message is
    \<^verbatim>\<open>f"Convergence failed at ... = {nu:g}"\<close>, which is determined by \<open>nu\<close> alone;
  \<^item> \<open>ComplexResult\<close>: a negative number raised to a fractional power. Python answers
    with a complex number there and carries on; the model is over the reals and stops
    at that point.
\<close>

datatype error =
    ZeroDivisionError
  | ValueError
  | NoConvergence
  | RuntimeError real
  | ComplexResult

text \<open>
  \<^verbatim>\<open>mpmath\<close> is not part of the repository. The two functions the scripts call,
  \<^verbatim>\<open>mp.hyper(a_list, b_list, z)\<close> and \<^verbatim>\<open>mp.gamma(x)\<close>, are taken as they come: any
  pair of functions that answer with a number or raise.
\<close>

record mpmath =
  hyper :: "real list \<Rightarrow> real list \<Rightarrow> real \<Rightarrow> error + real"
  gamma :: "real \<Rightarrow> error + real"

text \<open>Sequencing: the first exception ends the computation.\<close>

definition bindE :: "error + 'a \<Rightarrow> ('a \<Rightarrow> error + 'b) \<Rightarrow> error + 'b" where
  "bindE m f = (case m of Inl e \<Rightarrow> Inl e | Inr x \<Rightarrow> f x)"

text \<open>The operator \<^verbatim>\<open>/\<close> on floats and on \<^verbatim>\<open>mpf\<close> numbers.\<close>

definition py_div :: "real \<Rightarrow> real \<Rightarrow> error + real" where
  "py_div x y = (if y = 0 then Inl ZeroDivisionError else Inr (x / y))"

text \<open>
  The operator \<^verbatim>\<open>**\<close> with a float exponent: \<^verbatim>\<open>x ** 0.0\<close> is \<^verbatim>\<open>1.0\<close>, a zero base
  raises for a negative exponent, and a negative base has a real power only for an
  integral exponent.
\<close>

definition py_pow :: "real \<Rightarrow> real \<Rightarrow> error + real" where
  "py_pow x y =
     (if y = 0 then Inr 1
      else if 0 < x then Inr (x powr y)
      else if x = 0 then (if y < 0 then Inl ZeroDivisionError else Inr 0)
      else if of_int \<lfloor>y\<rfloor> = y then Inr (x powi \<lfloor>y\<rfloor>)
      else Inl ComplexResult)"


section \<open>\<^verbatim>\<open>main.py\<close>\<close>

subsection \<open>Helpers\<close>

text \<open>
  \<^verbatim>\<open>_gamma_product\<close>: \<^verbatim>\<open>prod = 1; for b in b_list: prod *= mp.gamma(b)\<close>.
  The loop is a recursion over the list that carries \<open>prod\<close> (here \<open>acc\<close>: \<open>prod\<close> is a constant of HOL).
\<close>

fun gamma_product_loop :: "mpmath \<Rightarrow> real \<Rightarrow> real list \<Rightarrow> error + real" where
  "gamma_product_loop mp acc [] = Inr acc"
| "gamma_product_loop mp acc (b # bs) =
     bindE (gamma mp b) (\<lambda>g. gamma_product_loop mp (acc * g) bs)"

definition gamma_product :: "mpmath \<Rightarrow> real list \<Rightarrow> error + real" where
  "gamma_product mp b_list = gamma_product_loop mp 1 b_list"

text \<open>
  \<^verbatim>\<open>hyper_reg\<close>: \<^verbatim>\<open>mp.hyper(a_list, b_list, z) / _gamma_product(b_list)\<close>; the left
  operand is evaluated first.
\<close>

definition hyper_reg :: "mpmath \<Rightarrow> real list \<Rightarrow> real list \<Rightarrow> real \<Rightarrow> error + real" where
  "hyper_reg mp a_list b_list z =
     bindE (hyper mp a_list b_list z) (\<lambda>h.
     bindE (gamma_product mp b_list) (\<lambda>g.
     py_div h g))"

subsection \<open>The kernel\<close>

text \<open>
  \<^verbatim>\<open>I_value(n, nu, Gamma)\<close>, statement by statement. The bases \<open>2\<close>, \<open>4\<close> and \<open>\<pi>\<close> are
  positive, so their powers are \<open>powr\<close>; the division of \<open>pre\<close> raises when
  \<open>(n - 1) * nu\<close> is zero, and once it has passed \<open>nu\<close> is not zero, so the two other
  divisions by \<open>nu\<close> cannot raise.
\<close>

definition I_value :: "mpmath \<Rightarrow> real \<Rightarrow> real \<Rightarrow> real \<Rightarrow> error + real" where
  "I_value mp n nu Gamma =
     bindE (py_div (2 powr (- 3 - 2 * n) * pi powr (- 1.5 - n)) ((n - 1) * nu)) (\<lambda>pre.
     let x_sq = (Gamma / (4 * pi * nu)) ^ 2;
         z = - x_sq
     in
     bindE (hyper mp [- 0.5] [0.5 - n / 2, 1 - n / 2] z) (\<lambda>hyper1.
     let term1 = - (4 powr (1 + n)) * pi powr (0.5 + n) *
                   (Gamma - 2 * (n - 1) * pi * nu * hyper1)
     in
     bindE (hyper_reg mp [(n - 1) / 2] [0.5, (2 + n) / 2] z) (\<lambda>hyper2.
     bindE (hyper_reg mp [n / 2] [1.5, (3 + n) / 2] z) (\<lambda>hyper3.
     bindE (py_pow (Gamma / nu) n) (\<lambda>p.
     bindE (gamma mp (1 - n / 2)) (\<lambda>g1.
     bindE (gamma mp (1.5 - n / 2)) (\<lambda>g2.
     let term2 = 2 * pi * p * (4 * pi * nu * g1 * hyper2 + Gamma * g2 * hyper3)
     in Inr (pre * (term1 + term2)))))))))"

subsection \<open>The fixed-point solver\<close>

text \<open>Line 73: \<^verbatim>\<open>Gamma_next = 1.0 / (1.0 - (1.0 - k) * I)\<close>.\<close>

definition Gamma_next :: "real \<Rightarrow> real \<Rightarrow> error + real" where
  "Gamma_next k I = py_div 1 (1 - (1 - k) * I)"

text \<open>
  The loop \<^verbatim>\<open>for _ in range(max_iter)\<close> of \<^verbatim>\<open>gamma_eff\<close>, by recursion on the number
  of iterations left; \<^verbatim>\<open>float(Gamma_next)\<close> is the identity on the reals. The defaults
  \<^verbatim>\<open>tol=1e-10\<close> and \<^verbatim>\<open>max_iter=200\<close> of the signature are written out where the
  solver is called without them, in the sweep.
\<close>

fun gamma_eff_loop ::
  "mpmath \<Rightarrow> real \<Rightarrow> real \<Rightarrow> real \<Rightarrow> real \<Rightarrow> nat \<Rightarrow> real \<Rightarrow> error + real" where
  "gamma_eff_loop mp n k nu tol 0 Gamma = Inl (RuntimeError nu)"
| "gamma_eff_loop mp n k nu tol (Suc m) Gamma =
     bindE (I_value mp n nu Gamma) (\<lambda>I.
     bindE (Gamma_next k I) (\<lambda>G'.
     if \<bar>G' - Gamma\<bar> < tol then Inr G'
     else gamma_eff_loop mp n k nu tol m G'))"

definition gamma_eff :: "mpmath \<Rightarrow> real \<Rightarrow> real \<Rightarrow> real \<Rightarrow> real \<Rightarrow> nat \<Rightarrow> error + real" where
  "gamma_eff mp n k nu tol max_iter = gamma_eff_loop mp n k nu tol max_iter 1"

subsection \<open>The sweep\<close>

text \<open>
  Lines 85 to 87: \<^verbatim>\<open>for n in n_list: gamma_vals = np.array([gamma_eff(n, k, nu) for nu in
  nu_vals]); plt.loglog(...)\<close>. The solver is called with its defaults \<^verbatim>\<open>tol=1e-10\<close> and
  \<^verbatim>\<open>max_iter=200\<close>. Nothing catches an exception: the first one ends the comprehension,
  the loop and the script, before \<^verbatim>\<open>plt.show()\<close>. The grid \<open>nu_vals\<close> comes from
  \<^verbatim>\<open>np.logspace\<close> and is a parameter here.
\<close>

fun gamma_vals :: "mpmath \<Rightarrow> real \<Rightarrow> real \<Rightarrow> real list \<Rightarrow> error + real list" where
  "gamma_vals mp n k [] = Inr []"
| "gamma_vals mp n k (nu # nus) =
     bindE (gamma_eff mp n k nu (1 / 10 ^ 10) 200) (\<lambda>g.
     bindE (gamma_vals mp n k nus) (\<lambda>gs.
     Inr (g # gs)))"

fun sweep :: "mpmath \<Rightarrow> real \<Rightarrow> real list \<Rightarrow> real list \<Rightarrow> error + (real \<times> real list) list" where
  "sweep mp k [] nu_vals = Inr []"
| "sweep mp k (n # ns) nu_vals =
     bindE (gamma_vals mp n k nu_vals) (\<lambda>c.
     bindE (sweep mp k ns nu_vals) (\<lambda>cs.
     Inr ((n, c) # cs)))"


section \<open>\<^verbatim>\<open>XPB_plot.py\<close>\<close>

text \<open>
  The second script defines its own copies of the helpers, of the kernel and of the
  solver (there named \<^verbatim>\<open>gamma_eff_PB\<close>). They are embedded from its text, under the
  source's names with the suffix \<open>_PB\<close>.
\<close>

fun gamma_product_loop_PB :: "mpmath \<Rightarrow> real \<Rightarrow> real list \<Rightarrow> error + real" where
  "gamma_product_loop_PB mp acc [] = Inr acc"
| "gamma_product_loop_PB mp acc (b # bs) =
     bindE (gamma mp b) (\<lambda>g. gamma_product_loop_PB mp (acc * g) bs)"

definition gamma_product_PB :: "mpmath \<Rightarrow> real list \<Rightarrow> error + real" where
  "gamma_product_PB mp b_list = gamma_product_loop_PB mp 1 b_list"

definition hyper_reg_PB :: "mpmath \<Rightarrow> real list \<Rightarrow> real list \<Rightarrow> real \<Rightarrow> error + real" where
  "hyper_reg_PB mp a_list b_list z =
     bindE (hyper mp a_list b_list z) (\<lambda>h.
     bindE (gamma_product_PB mp b_list) (\<lambda>g.
     py_div h g))"

definition I_value_PB :: "mpmath \<Rightarrow> real \<Rightarrow> real \<Rightarrow> real \<Rightarrow> error + real" where
  "I_value_PB mp n nu Gamma =
     bindE (py_div (2 powr (- 3 - 2 * n) * pi powr (- 1.5 - n)) ((n - 1) * nu)) (\<lambda>pre.
     let x_sq = (Gamma / (4 * pi * nu)) ^ 2;
         z = - x_sq
     in
     bindE (hyper mp [- 0.5] [0.5 - n / 2, 1 - n / 2] z) (\<lambda>hyper1.
     let term1 = - (4 powr (1 + n)) * pi powr (0.5 + n) *
                   (Gamma - 2 * (n - 1) * pi * nu * hyper1)
     in
     bindE (hyper_reg_PB mp [(n - 1) / 2] [0.5, (2 + n) / 2] z) (\<lambda>hyper2.
     bindE (hyper_reg_PB mp [n / 2] [1.5, (3 + n) / 2] z) (\<lambda>hyper3.
     bindE (py_pow (Gamma / nu) n) (\<lambda>p.
     bindE (gamma mp (1 - n / 2)) (\<lambda>g1.
     bindE (gamma mp (1.5 - n / 2)) (\<lambda>g2.
     let term2 = 2 * pi * p * (4 * pi * nu * g1 * hyper2 + Gamma * g2 * hyper3)
     in Inr (pre * (term1 + term2)))))))))"

fun gamma_eff_PB_loop ::
  "mpmath \<Rightarrow> real \<Rightarrow> real \<Rightarrow> real \<Rightarrow> real \<Rightarrow> nat \<Rightarrow> real \<Rightarrow> error + real" where
  "gamma_eff_PB_loop mp n k nu tol 0 Gamma = Inl (RuntimeError nu)"
| "gamma_eff_PB_loop mp n k nu tol (Suc m) Gamma =
     bindE (I_value_PB mp n nu Gamma) (\<lambda>I.
     bindE (py_div 1 (1 - (1 - k) * I)) (\<lambda>G'.
     if \<bar>G' - Gamma\<bar> < tol then Inr G'
     else gamma_eff_PB_loop mp n k nu tol m G'))"

definition gamma_eff_PB :: "mpmath \<Rightarrow> real \<Rightarrow> real \<Rightarrow> real \<Rightarrow> real \<Rightarrow> nat \<Rightarrow> error + real" where
  "gamma_eff_PB mp n k nu tol max_iter = gamma_eff_PB_loop mp n k nu tol max_iter 1"

subsection \<open>From the unloading rate to \<open>nu\<close>\<close>

text \<open>
  Lines 82 to 84: \<^verbatim>\<open>C1 = 2.887\<close>, \<^verbatim>\<open>C2 = 3.24 * np.pi**(2/3)\<close> and
  \<^verbatim>\<open>nu_vals = C1 * ((ru_vals / C2) ** 1.171)\<close>, an operation on the whole array.
  \<open>nu_of_ru\<close> is what it does to one entry; the grid \<^verbatim>\<open>ru_vals\<close> runs from
  \<^verbatim>\<open>1e-2\<close> to \<^verbatim>\<open>1e10\<close>, so the base of the power is positive.
\<close>

definition C1 :: real where
  "C1 = 2.887"

definition C2 :: real where
  "C2 = 3.24 * pi powr (2 / 3)"

definition nu_of_ru :: "real \<Rightarrow> real" where
  "nu_of_ru ru = C1 * ((ru / C2) powr 1.171)"

definition nu_vals_PB :: "real list \<Rightarrow> real list" where
  "nu_vals_PB ru_vals = map nu_of_ru ru_vals"


section \<open>The kernel as the specification writes it\<close>

text \<open>
  For the comparison with \<^verbatim>\<open>I_value\<close>, the closed form of the specification, written
  from its words over two mathematical functions, the generalized hypergeometric sum
  \<open>pFq\<close> and the gamma function \<open>Gfunc\<close>; every power in it, \<open>(\<Gamma> / \<nu>)\<^bsup>n\<^esup>\<close> included,
  is the power \<open>powr\<close> of the real numbers.
  \<open>regPFq\<close> is "the hypergeometric sum divided by the product of gamma functions of
  its denominator parameters", and the kernel is \<open>prefactor \<cdot> (term1 + term2)\<close> with
  \<open>z = - (\<Gamma> / (4\<pi>\<nu>))\<^sup>2\<close>.
\<close>

definition spec_regPFq ::
  "(real list \<Rightarrow> real list \<Rightarrow> real \<Rightarrow> real) \<Rightarrow> (real \<Rightarrow> real) \<Rightarrow>
   real list \<Rightarrow> real list \<Rightarrow> real \<Rightarrow> real" where
  "spec_regPFq pFq Gfunc a b z = pFq a b z / prod_list (map Gfunc b)"

definition spec_kernel ::
  "(real list \<Rightarrow> real list \<Rightarrow> real \<Rightarrow> real) \<Rightarrow> (real \<Rightarrow> real) \<Rightarrow>
   real \<Rightarrow> real \<Rightarrow> real \<Rightarrow> real" where
  "spec_kernel pFq Gfunc n nu Gamma =
     (let z = - ((Gamma / (4 * pi * nu)) ^ 2);
          prefactor = 2 powr (- 3 - 2 * n) * pi powr (- 1.5 - n) / ((n - 1) * nu);
          term1 = - (4 powr (1 + n)) * pi powr (0.5 + n) *
                    (Gamma - 2 * (n - 1) * pi * nu * pFq [- 0.5] [0.5 - n / 2, 1 - n / 2] z);
          term2 = 2 * pi * (Gamma / nu) powr n *
                    (4 * pi * nu * Gfunc (1 - n / 2) *
                       spec_regPFq pFq Gfunc [(n - 1) / 2] [0.5, (2 + n) / 2] z +
                     Gamma * Gfunc (1.5 - n / 2) *
                       spec_regPFq pFq Gfunc [n / 2] [1.5, (3 + n) / 2] z)
      in prefactor * (term1 + term2))"


section \<open>A stand-in for the library\<close>

text \<open>
  To run the definitions on concrete inputs the library has to be some definite pair of
  functions. \<open>mp_stub h\<close> answers every call of \<^verbatim>\<open>mp.hyper\<close> with \<open>h\<close>, and its
  \<^verbatim>\<open>mp.gamma\<close> raises \<open>ValueError\<close> at the poles \<open>0, -1, -2, \<dots>\<close> (as that of
  \<^verbatim>\<open>mpmath\<close> does) and answers \<open>1\<close> elsewhere. It is used at concrete inputs only; every
  general theorem below is about an arbitrary library.
\<close>

definition mp_stub :: "error + real \<Rightarrow> mpmath" where
  "mp_stub h =
     \<lparr>hyper = (\<lambda>a_list b_list z. h),
      gamma = (\<lambda>x. if x \<le> 0 \<and> of_int \<lfloor>x\<rfloor> = x then Inl ValueError else Inr 1)\<rparr>"


text \<open>
  A second stand-in, whose gamma function answers \<open>g\<close> away from the poles and whose
  hypergeometric sums are all \<open>h\<close>: with \<open>g \<noteq> 1\<close> the division by the gamma product
  shows in the results.
\<close>

definition mp_stub_g :: "real \<Rightarrow> real \<Rightarrow> mpmath" where
  "mp_stub_g h g =
     \<lparr>hyper = (\<lambda>a_list b_list z. Inr h),
      gamma = (\<lambda>x. if x \<le> 0 \<and> of_int \<lfloor>x\<rfloor> = x then Inl ValueError else Inr g)\<rparr>"


section \<open>Basic facts\<close>

lemma bindE_Inl [simp]: "bindE (Inl e) f = Inl e"
  by (simp add: bindE_def)

lemma bindE_Inr [simp]: "bindE (Inr x) f = f x"
  by (simp add: bindE_def)

lemma py_div_zero [simp]: "py_div x 0 = Inl ZeroDivisionError"
  by (simp add: py_div_def)

lemma py_div_nonzero: "y \<noteq> 0 \<Longrightarrow> py_div x y = Inr (x / y)"
  by (simp add: py_div_def)

lemma py_pow_pos: "0 < x \<Longrightarrow> py_pow x y = Inr (x powr y)"
  by (simp add: py_pow_def)

lemma py_pow_real_power:
  "0 < x \<or> (x = 0 \<and> 0 < y) \<Longrightarrow> py_pow x y = Inr (x powr y)"
  by (auto simp: py_pow_def)

lemma gamma_product_loop_PB_eq: "gamma_product_loop_PB mp acc bs = gamma_product_loop mp acc bs"
  by (induction bs arbitrary: acc) simp_all

lemma hyper_reg_PB_eq: "hyper_reg_PB mp a b z = hyper_reg mp a b z"
  by (simp add: hyper_reg_PB_def hyper_reg_def gamma_product_PB_def gamma_product_def
      gamma_product_loop_PB_eq)

lemma I_value_PB_eq: "I_value_PB mp n nu Gamma = I_value mp n nu Gamma"
  by (simp add: I_value_PB_def I_value_def hyper_reg_PB_eq)

lemma gamma_eff_PB_loop_eq:
  "gamma_eff_PB_loop mp n k nu tol m Gamma = gamma_eff_loop mp n k nu tol m Gamma"
  by (induction m arbitrary: Gamma) (simp_all add: I_value_PB_eq Gamma_next_def cong: if_cong)

lemma gamma_product_loop_values:
  "map (gamma mp) bs = map Inr gs \<Longrightarrow>
   gamma_product_loop mp acc bs = Inr (acc * prod_list gs)"
proof (induction bs arbitrary: acc gs)
  case Nil
  then show ?case by simp
next
  case (Cons b bs)
  then obtain g gs' where gs: "gs = g # gs'" by (cases gs) auto
  with Cons.prems have "gamma mp b = Inr g" and "map (gamma mp) bs = map Inr gs'"
    by simp_all
  with Cons.IH [of gs' "acc * g"] gs show ?case
    by (simp add: mult.assoc)
qed

lemma gamma_product_loop_raises:
  "map (gamma mp) bs1 = map Inr gs1 \<Longrightarrow> gamma mp b = Inl e \<Longrightarrow>
   gamma_product_loop mp acc (bs1 @ b # bs2) = Inl e"
proof (induction bs1 arbitrary: acc gs1)
  case Nil
  then show ?case by simp
next
  case (Cons c cs)
  then obtain g gs' where gs: "gs1 = g # gs'" by (cases gs1) auto
  with Cons.prems have "gamma mp c = Inr g" and "map (gamma mp) cs = map Inr gs'"
    by simp_all
  with Cons.IH [of gs' "acc * g"] Cons.prems(2) show ?case
    by simp
qed


lemma hyper_reg_two:
  assumes "hyper mp a [b1, b2] z = Inr h" and "gamma mp b1 = Inr g1" and "gamma mp b2 = Inr g2"
    and "g1 * g2 \<noteq> 0"
  shows "hyper_reg mp a [b1, b2] z = Inr (h / (g1 * g2))"
  using assms by (simp add: hyper_reg_def gamma_product_def py_div_def)

lemma I_value_domain: "n = 1 \<or> nu = 0 \<Longrightarrow> I_value mp n nu Gamma = Inl ZeroDivisionError"
  by (auto simp: I_value_def)

lemma gamma_eff_kernel_error:
  "I_value mp n nu 1 = Inl e \<Longrightarrow> 0 < max_iter \<Longrightarrow> gamma_eff mp n k nu tol max_iter = Inl e"
  by (cases max_iter) (simp_all add: gamma_eff_def)

text \<open>
  The stand-in library at work. With every hypergeometric sum answered by \<open>0\<close>, the
  kernel at \<open>n = 1/2\<close> and \<open>nu = 1/\<pi>\<close> is the identity on positive \<open>Gamma\<close>.
\<close>

lemma stub_gamma_pos: "0 < x \<Longrightarrow> gamma (mp_stub h) x = Inr 1"
  by (simp add: mp_stub_def)

lemma stub_hyper: "hyper (mp_stub h) a b z = h"
  by (simp add: mp_stub_def)

lemma I_value_stub_zero:
  assumes "0 < Gamma"
  shows "I_value (mp_stub (Inr 0)) (1 / 2) (1 / pi) Gamma = Inr Gamma"
proof -
  have p2: "(2::real) powr (- 4) = 1 / 16"
    by (simp add: powr_neg_numeral)
  have ppi: "pi powr (- 2) = 1 / pi ^ 2"
    by (simp add: powr_neg_numeral)
  have p4: "(4::real) powr (3 / 2) = 8"
    by simp
  have hr: "hyper_reg (mp_stub (Inr 0)) a [b1, b2] z = Inr 0" if "0 < b1" "0 < b2" for a b1 b2 z
    using that by (simp add: hyper_reg_def gamma_product_def stub_gamma_pos stub_hyper py_div_def)
  show ?thesis
    using assms
    by (simp add: I_value_def stub_hyper hr stub_gamma_pos py_div_def Let_def p2 ppi p4
        py_pow_pos power2_eq_square)
qed


text \<open>
  At \<open>n = 2\<close> the argument \<open>1 - n / 2\<close> of the gamma function is the pole \<open>0\<close>, and at
  \<open>n = 3\<close> the argument \<open>1.5 - n / 2\<close> is: the kernel raises.
\<close>

lemma I_value_stub_pole_two: "I_value (mp_stub (Inr 1)) 2 1 1 = Inl ValueError"
  by (simp add: I_value_def hyper_reg_def gamma_product_def py_div_def py_pow_def mp_stub_def)

lemma I_value_stub_pole_three: "I_value (mp_stub (Inr 1)) 3 1 1 = Inl ValueError"
  by (simp add: I_value_def hyper_reg_def gamma_product_def py_div_def py_pow_def mp_stub_def)

lemma stub_g_gamma_pos: "0 < x \<Longrightarrow> gamma (mp_stub_g h g) x = Inr g"
  by (simp add: mp_stub_g_def)

lemma stub_g_hyper: "hyper (mp_stub_g h g) a b z = Inr h"
  by (simp add: mp_stub_g_def)

lemma I_value_hyper_error:
  "(n - 1) * nu \<noteq> 0 \<Longrightarrow> I_value (mp_stub (Inl e)) n nu Gamma = Inl e"
  by (simp add: I_value_def py_div_def stub_hyper)

section \<open>The regularized hypergeometric function\<close>

text \<open>
  Claim C6, as amended. \<^verbatim>\<open>hyper_reg(a_list, b_list, z)\<close> is always the raw sum
  \<^verbatim>\<open>mp.hyper(a_list, b_list, z)\<close> divided by the product of the values of \<^verbatim>\<open>mp.gamma\<close> at
  the entries of \<open>b_list\<close>, and that product is formed literally, entry by entry: when
  all the gamma values exist and their product is not zero the result is the quotient,
  and when \<^verbatim>\<open>mp.gamma\<close> raises at an entry of \<open>b_list\<close> (the first at which it does)
  \<^verbatim>\<open>hyper_reg\<close> raises the same error. There is no separate computation for a \<open>b_j\<close> at
  or near a non-positive integer.
\<close>

theorem hyper_reg_literal_quotient:
  assumes "hyper mp a_list b_list z = Inr h"
  shows "(map (gamma mp) b_list = map Inr gs \<and> prod_list gs \<noteq> 0 \<longrightarrow>
            hyper_reg mp a_list b_list z = Inr (h / prod_list gs)) \<and>
         (b_list = bs1 @ b # bs2 \<and> map (gamma mp) bs1 = map Inr gs1 \<and> gamma mp b = Inl e \<longrightarrow>
            hyper_reg mp a_list b_list z = Inl e)"
  using assms
  by (auto simp: hyper_reg_def gamma_product_def gamma_product_loop_values
      gamma_product_loop_raises py_div_nonzero)


text \<open>
  The theorem at two inputs: away from the poles the quotient, at the pole \<open>- 2\<close> the
  error of the gamma function.
\<close>

theorem hyper_reg_literal_quotient_witness:
  "hyper_reg (mp_stub (Inr 1)) [1 / 4] [1 / 2, 5 / 4] (- 1) = Inr 1 \<and>
   hyper_reg (mp_stub (Inr 1)) [- 1] [- 2] 0 = Inl ValueError"
proof -
  have h: "hyper (mp_stub (Inr 1)) a b z = Inr 1" for a b z
    by (simp add: mp_stub_def)
  have g: "map (gamma (mp_stub (Inr 1))) [1 / 2, 5 / 4] = map Inr [1, 1]"
    by (simp add: mp_stub_def)
  have p: "gamma (mp_stub (Inr 1)) (- 2) = Inl ValueError"
    by (simp add: mp_stub_def del: of_int_floor_cancel)
  from hyper_reg_literal_quotient [OF h, where b_list = "[1 / 2, 5 / 4]" and gs = "[1, 1]"
      and a_list = "[1 / 4]" and z = "- 1"] g
  have "hyper_reg (mp_stub (Inr 1)) [1 / 4] [1 / 2, 5 / 4] (- 1) = Inr 1" by simp
  moreover
  from hyper_reg_literal_quotient [OF h, where b_list = "[- 2]" and ?bs1.0 = "[]" and b = "- 2"
      and ?bs2.0 = "[]" and ?gs1.0 = "[]" and e = ValueError and a_list = "[- 1]" and z = 0] p
  have "hyper_reg (mp_stub (Inr 1)) [- 1] [- 2] 0 = Inl ValueError" by simp
  ultimately show ?thesis by simp
qed


text \<open>
  Claim C6 as stated fails: at \<open>b_list = [- 2]\<close>, a non-positive integer, the result is
  not a finite regularized value but the error raised while forming the gamma product.
  (The raw sum \<open>pFq([- 1]; [- 2]; 0)\<close> is \<open>1\<close>, and the regularized function is \<open>0\<close>
  there.)
\<close>

theorem hyper_reg_pole_counterexample:
  "hyper_reg (mp_stub (Inr 1)) [- 1] [- 2] 0 = Inl ValueError"
  by (simp add: hyper_reg_def gamma_product_def mp_stub_def del: of_int_floor_cancel)


section \<open>The two scripts\<close>

text \<open>
  Claim C10. The kernel and the solver of \<^verbatim>\<open>XPB_plot.py\<close> are extensionally equal to
  those of \<^verbatim>\<open>main.py\<close>: for every library and all arguments, \<^verbatim>\<open>I_value\<close> of the one
  returns the value or raises the error that \<^verbatim>\<open>I_value\<close> of the other does, and so do
  \<^verbatim>\<open>gamma_eff_PB\<close> and \<^verbatim>\<open>gamma_eff\<close>.
\<close>

theorem scripts_agree:
  "I_value_PB mp n nu Gamma = I_value mp n nu Gamma \<and>
   gamma_eff_PB mp n k nu tol max_iter = gamma_eff mp n k nu tol max_iter"
  by (simp add: I_value_PB_eq gamma_eff_PB_def gamma_eff_def gamma_eff_PB_loop_eq)


section \<open>The fixed-point solver\<close>

text \<open>
  As long as the kernel and the division succeed and the step is not below the
  tolerance, the loop moves on: after \<open>N\<close> such iterations it stands at the \<open>N\<close>-th
  iterate with \<open>N\<close> iterations fewer to go.
\<close>

lemma gamma_eff_loop_skip:
  assumes "\<forall>i<N. I_value mp n nu (G i) = Inr (K i) \<and>
             1 - (1 - k) * K i \<noteq> 0 \<and>
             G (Suc i) = 1 / (1 - (1 - k) * K i) \<and>
             \<not> \<bar>G (Suc i) - G i\<bar> < tol"
  shows "gamma_eff_loop mp n k nu tol (N + m) (G 0) = gamma_eff_loop mp n k nu tol m (G N)"
  using assms
proof (induction N arbitrary: G K)
  case 0
  then show ?case by simp
next
  case (Suc N)
  have "0 < Suc N" by simp
  with Suc.prems
  have step: "I_value mp n nu (G 0) = Inr (K 0) \<and> 1 - (1 - k) * K 0 \<noteq> 0 \<and>
      G (Suc 0) = 1 / (1 - (1 - k) * K 0) \<and> \<not> \<bar>G (Suc 0) - G 0\<bar> < tol"
    by blast
  have "\<forall>i<N. I_value mp n nu (G (Suc i)) = Inr (K (Suc i)) \<and>
             1 - (1 - k) * K (Suc i) \<noteq> 0 \<and>
             G (Suc (Suc i)) = 1 / (1 - (1 - k) * K (Suc i)) \<and>
             \<not> \<bar>G (Suc (Suc i)) - G (Suc i)\<bar> < tol"
    using Suc.prems Suc_mono by blast
  from Suc.IH [of "\<lambda>i. G (Suc i)" "\<lambda>i. K (Suc i)", OF this]
  have rest: "gamma_eff_loop mp n k nu tol (N + m) (G (Suc 0)) =
        gamma_eff_loop mp n k nu tol m (G (Suc N))" .
  from step have I0: "I_value mp n nu (G 0) = Inr (K 0)"
    by blast
  from step have nz: "1 - (1 - k) * K 0 \<noteq> 0"
    by blast
  from step have G1: "G (Suc 0) = 1 / (1 - (1 - k) * K 0)"
    by blast
  from step have far: "\<not> \<bar>G (Suc 0) - G 0\<bar> < tol"
    by blast
  have "Gamma_next k (K 0) = Inr (G (Suc 0))"
    unfolding Gamma_next_def G1 by (rule py_div_nonzero [OF nz])
  with I0 far have "gamma_eff_loop mp n k nu tol (Suc (N + m)) (G 0) =
        gamma_eff_loop mp n k nu tol (N + m) (G (Suc 0))"
    by simp
  with rest show ?case by simp
qed


text \<open>
  Claim C1, as amended. Let \<open>G\<close> be the sequence of iterates: \<open>G 0 = 1.0\<close> and, for the
  first \<open>N\<close> iterations, the kernel returns \<open>K i\<close> at \<open>G i\<close>, the
  denominator \<open>1 - (1 - k) * K i\<close> is not zero, \<open>G (i + 1) = 1 / (1 - (1 - k) * K i)\<close>,
  and the step \<open>\<bar>G (i + 1) - G i\<bar>\<close> is not below \<open>tol\<close>. Then
  \<^item> if a further iteration is left and its step is below \<open>tol\<close>, the solver returns
    that \<open>Gamma_next\<close>: it returns at the first iteration whose step is below \<open>tol\<close>;
  \<^item> if \<open>N = max_iter\<close>, that is, \<open>max_iter\<close> iterations have gone by without the
    condition holding, the solver raises the \<open>RuntimeError\<close> whose message names
    \<open>nu\<close>, and \<open>nu\<close> only.
  This holds for all \<open>n\<close>, \<open>k\<close>, \<open>nu\<close>, \<open>tol\<close> and \<open>max_iter\<close>.
\<close>

theorem gamma_eff_fixed_point_iteration:
  assumes "G 0 = 1"
    and "\<forall>i<N. I_value mp n nu (G i) = Inr (K i) \<and>
             1 - (1 - k) * K i \<noteq> 0 \<and>
             G (Suc i) = 1 / (1 - (1 - k) * K i) \<and>
             \<not> \<bar>G (Suc i) - G i\<bar> < tol"
  shows "(N < max_iter \<and> I_value mp n nu (G N) = Inr (K N) \<and> 1 - (1 - k) * K N \<noteq> 0 \<and>
          \<bar>1 / (1 - (1 - k) * K N) - G N\<bar> < tol \<longrightarrow>
            gamma_eff mp n k nu tol max_iter = Inr (1 / (1 - (1 - k) * K N))) \<and>
         (N = max_iter \<longrightarrow> gamma_eff mp n k nu tol max_iter = Inl (RuntimeError nu))"
proof -
  have skip: "gamma_eff_loop mp n k nu tol (N + m) (G 0) = gamma_eff_loop mp n k nu tol m (G N)" for m
    by (rule gamma_eff_loop_skip [OF assms(2)])
  have converged: "gamma_eff mp n k nu tol max_iter = Inr (1 / (1 - (1 - k) * K N))"
    if less: "N < max_iter" and IN: "I_value mp n nu (G N) = Inr (K N)"
      and nz: "1 - (1 - k) * K N \<noteq> 0" and near: "\<bar>1 / (1 - (1 - k) * K N) - G N\<bar> < tol"
  proof -
    from less obtain m where "max_iter = Suc (N + m)"
      using less_imp_Suc_add by blast
    then have m: "max_iter = N + Suc m"
      by simp
    have nxt: "Gamma_next k (K N) = Inr (1 / (1 - (1 - k) * K N))"
      unfolding Gamma_next_def by (rule py_div_nonzero [OF nz])
    have "gamma_eff mp n k nu tol max_iter = gamma_eff_loop mp n k nu tol (N + Suc m) (G 0)"
      by (simp add: gamma_eff_def m assms(1))
    also have "\<dots> = gamma_eff_loop mp n k nu tol (Suc m) (G N)"
      by (rule skip)
    also have "\<dots> = Inr (1 / (1 - (1 - k) * K N))"
      using IN nxt near by simp
    finally show ?thesis .
  qed
  have failed: "gamma_eff mp n k nu tol max_iter = Inl (RuntimeError nu)" if "N = max_iter"
  proof -
    have "gamma_eff mp n k nu tol max_iter = gamma_eff_loop mp n k nu tol (N + 0) (G 0)"
      using assms(1) that by (simp add: gamma_eff_def)
    also have "\<dots> = gamma_eff_loop mp n k nu tol 0 (G N)"
      by (rule skip)
    finally show ?thesis by simp
  qed
  from converged failed show ?thesis by blast
qed


text \<open>
  The theorem at work, on the stand-in library with \<open>n = 1/2\<close>, \<open>k = 1/10\<close> and
  \<open>nu = 1/\<pi>\<close>, where the first update leads from \<open>1\<close> to \<open>10\<close>: with \<open>tol = 10\<close> the
  first iteration converges and \<open>10\<close> is returned; with \<open>tol = 1\<close> and \<open>max_iter = 1\<close>
  it does not, and the error is raised.
\<close>

theorem gamma_eff_fixed_point_iteration_witness:
  "gamma_eff (mp_stub (Inr 0)) (1 / 2) (1 / 10) (1 / pi) 10 1 = Inr 10 \<and>
   gamma_eff (mp_stub (Inr 0)) (1 / 2) (1 / 10) (1 / pi) 1 1 = Inl (RuntimeError (1 / pi))"
proof -
  have I1: "I_value (mp_stub (Inr 0)) (1 / 2) (1 / pi) 1 = Inr 1"
    using I_value_stub_zero [of 1] by simp
  from gamma_eff_fixed_point_iteration [where G = "\<lambda>i. if i = 0 then 1 else 10" and N = 0
      and max_iter = 1 and mp = "mp_stub (Inr 0)" and n = "1 / 2" and nu = "1 / pi"
      and K = "\<lambda>i. 1" and k = "1 / 10" and tol = 10] I1
  have "gamma_eff (mp_stub (Inr 0)) (1 / 2) (1 / 10) (1 / pi) 10 1 = Inr 10"
    by simp
  moreover
  from gamma_eff_fixed_point_iteration [where G = "\<lambda>i. if i = 0 then 1 else 10" and N = 1
      and max_iter = 1 and mp = "mp_stub (Inr 0)" and n = "1 / 2" and nu = "1 / pi"
      and K = "\<lambda>i. 1" and k = "1 / 10" and tol = 1] I1
  have "gamma_eff (mp_stub (Inr 0)) (1 / 2) (1 / 10) (1 / pi) 1 1 = Inl (RuntimeError (1 / pi))"
    by simp
  ultimately show ?thesis by simp
qed


text \<open>
  Claim C1 as stated fails in its last part: the error does not identify \<open>n\<close>. Two
  solves at the same \<open>nu = 1\<close> with \<open>n = 0.2\<close> and \<open>n = 0.4\<close> and no iteration allowed
  raise one and the same error, which carries \<open>nu\<close>.
\<close>

theorem convergence_error_counterexample:
  "gamma_eff (mp_stub (Inr 1)) (1 / 5) (1 / 10) 1 (1 / 10 ^ 10) 0 = Inl (RuntimeError 1) \<and>
   gamma_eff (mp_stub (Inr 1)) (2 / 5) (1 / 10) 1 (1 / 10 ^ 10) 0 = Inl (RuntimeError 1)"
  by (simp add: gamma_eff_def)

text \<open>
  Claim C7, as amended. Let \<open>k = 1\<close>, \<open>tol > 0\<close> and \<open>max_iter \<ge> 1\<close>. For every \<open>n\<close> and
  \<open>nu\<close> at which the kernel returns a number at the initial \<open>Gamma = 1.0\<close>, the factor
  \<open>1 - k\<close> is zero, the first update is \<open>1 / (1 - 0) = 1\<close>, the step is \<open>0 < tol\<close>, and
  the solver returns \<open>1.0\<close> at its first iteration, whatever \<open>n\<close> and \<open>nu\<close> are. At
  every other \<open>n\<close> and \<open>nu\<close>, the solver raises the error of the kernel: so it does for
  \<open>n = 1\<close> and \<open>nu = 0\<close>, and also for \<open>n \<noteq> 1\<close>, \<open>nu > 0\<close> where the library raises, as
  at the poles \<open>n = 2, 3, \<dots>\<close>
\<close>

theorem gamma_eff_k_one:
  assumes "0 < tol" and "0 < max_iter"
  shows "gamma_eff mp n 1 nu tol max_iter =
           (case I_value mp n nu 1 of Inl e \<Rightarrow> Inl e | Inr I \<Rightarrow> Inr 1)"
proof -
  from assms(2) obtain m where m: "max_iter = Suc m"
    using gr0_implies_Suc by blast
  show ?thesis
  proof (cases "I_value mp n nu 1")
    case (Inl e)
    then show ?thesis
      by (simp add: gamma_eff_def m)
  next
    case (Inr I)
    have "Gamma_next 1 I = Inr 1"
      by (simp add: Gamma_next_def py_div_def)
    with Inr assms(1) show ?thesis
      by (simp add: gamma_eff_def m)
  qed
qed

text \<open>
  The theorem with the defaults of the solver at \<open>nu = 1\<close>: at \<open>n = 0.2\<close> the result is
  \<open>1\<close>, at \<open>n = 3\<close> the error of the gamma function at its pole.
\<close>

theorem gamma_eff_k_one_witness:
  "gamma_eff (mp_stub (Inr 1)) (1 / 5) 1 1 (1 / 10 ^ 10) 200 = Inr 1 \<and>
   gamma_eff (mp_stub (Inr 1)) 3 1 1 (1 / 10 ^ 10) 200 = Inl ValueError"
proof -
  have "\<exists>I. I_value (mp_stub (Inr 1)) (1 / 5) 1 1 = Inr I"
    by (simp add: I_value_def hyper_reg_def gamma_product_def stub_hyper stub_gamma_pos
        py_div_def py_pow_def Let_def)
  then obtain I where "I_value (mp_stub (Inr 1)) (1 / 5) 1 1 = Inr I" ..
  with gamma_eff_k_one [of "1 / 10 ^ 10" 200 "mp_stub (Inr 1)" "1 / 5" 1]
  have "gamma_eff (mp_stub (Inr 1)) (1 / 5) 1 1 (1 / 10 ^ 10) 200 = Inr 1"
    by simp
  moreover
  from gamma_eff_k_one [of "1 / 10 ^ 10" 200 "mp_stub (Inr 1)" 3 1]
  have "gamma_eff (mp_stub (Inr 1)) 3 1 1 (1 / 10 ^ 10) 200 = Inl ValueError"
    by (simp add: I_value_stub_pole_three)
  ultimately show ?thesis by simp
qed

text \<open>
  Claim C7 as stated fails: \<open>n = 2\<close> and \<open>nu = 1\<close> are valid (\<open>n > 0\<close>, \<open>n \<noteq> 1\<close>,
  \<open>nu > 0\<close>), and with \<open>k = 1\<close> and the defaults the solver does not return \<open>1.0\<close>: the
  kernel raises at the pole \<open>1 - n / 2 = 0\<close> and the solver with it. (On the stand-in
  library it is the gamma function that raises; \<^verbatim>\<open>mpmath\<close> raises already in the first
  hypergeometric sum, which has the same pole among its denominator parameters.)
\<close>

theorem k_one_pole_counterexample:
  "gamma_eff (mp_stub (Inr 1)) 2 1 1 (1 / 10 ^ 10) 200 = Inl ValueError"
  by (rule gamma_eff_kernel_error [OF I_value_stub_pole_two]) simp

text \<open>
  Claim C3, as amended. The solver has no guard on the denominator of the update. Let
  the first \<open>N\<close> iterations succeed without meeting the tolerance (\<open>G\<close> the estimates
  and \<open>K\<close> the kernel values, as before), let an iteration be left, and let the kernel
  return \<open>I\<close> at the estimate \<open>G N\<close>. If \<open>1 - (1 - k) * I\<close> is exactly
  zero, the division raises \<open>ZeroDivisionError\<close> and the solve ends with it. If it is
  not zero, however small, nothing is raised: \<open>Gamma_next = 1 / (1 - (1 - k) * I)\<close> is
  returned when the step is below \<open>tol\<close>, and is the estimate of the remaining
  iterations otherwise.
\<close>

theorem no_singularity_guard:
  assumes "G 0 = 1"
    and "\<forall>i<N. I_value mp n nu (G i) = Inr (K i) \<and>
             1 - (1 - k) * K i \<noteq> 0 \<and>
             G (Suc i) = 1 / (1 - (1 - k) * K i) \<and>
             \<not> \<bar>G (Suc i) - G i\<bar> < tol"
    and "N < max_iter"
    and "I_value mp n nu (G N) = Inr I"
  shows "(1 - (1 - k) * I = 0 \<longrightarrow> gamma_eff mp n k nu tol max_iter = Inl ZeroDivisionError) \<and>
         (1 - (1 - k) * I \<noteq> 0 \<longrightarrow>
            gamma_eff mp n k nu tol max_iter =
              (if \<bar>1 / (1 - (1 - k) * I) - G N\<bar> < tol then Inr (1 / (1 - (1 - k) * I))
               else gamma_eff_loop mp n k nu tol (max_iter - Suc N) (1 / (1 - (1 - k) * I))))"
proof -
  from assms(3) obtain m where "max_iter = Suc (N + m)"
    using less_imp_Suc_add by blast
  then have m: "max_iter = N + Suc m" and m': "max_iter - Suc N = m"
    by simp_all
  have "gamma_eff mp n k nu tol max_iter = gamma_eff_loop mp n k nu tol (N + Suc m) (G 0)"
    by (simp add: gamma_eff_def m assms(1))
  also have "\<dots> = gamma_eff_loop mp n k nu tol (Suc m) (G N)"
    by (rule gamma_eff_loop_skip [OF assms(2)])
  finally have "gamma_eff mp n k nu tol max_iter =
      bindE (Gamma_next k I) (\<lambda>G'. if \<bar>G' - G N\<bar> < tol then Inr G'
        else gamma_eff_loop mp n k nu tol m G')"
    by (simp add: assms(4))
  then show ?thesis
    unfolding m' by (simp add: Gamma_next_def py_div_def)
qed


text \<open>
  The theorem on the stand-in library at \<open>n = 1/2\<close>, \<open>nu = 1/\<pi>\<close>, where the kernel
  is the identity. With \<open>k = 1/2\<close> the estimates are \<open>1, 2\<close> and the denominator of the
  second update is \<open>1 - 2/2 = 0\<close>: the solve ends with \<open>ZeroDivisionError\<close>. With
  \<open>k = 10\<^sup>-\<^sup>1\<^sup>2\<close> the denominator of the first update is \<open>10\<^sup>-\<^sup>1\<^sup>2\<close> and nothing is
  raised for it: a solve of one iteration ends with the convergence error.
\<close>

theorem no_singularity_guard_witness:
  "gamma_eff (mp_stub (Inr 0)) (1 / 2) (1 / 2) (1 / pi) (1 / 10 ^ 10) 200 = Inl ZeroDivisionError \<and>
   gamma_eff (mp_stub (Inr 0)) (1 / 2) (1 / 10 ^ 12) (1 / pi) (1 / 10 ^ 10) 1 =
     Inl (RuntimeError (1 / pi))"
proof -
  have I1: "I_value (mp_stub (Inr 0)) (1 / 2) (1 / pi) 1 = Inr 1"
    using I_value_stub_zero [of 1] by simp
  have I2: "I_value (mp_stub (Inr 0)) (1 / 2) (1 / pi) 2 = Inr 2"
    using I_value_stub_zero [of 2] by simp
  from no_singularity_guard [where G = "\<lambda>i. if i = 0 then 1 else 2" and K = "\<lambda>i. 1" and N = 1
      and mp = "mp_stub (Inr 0)" and n = "1 / 2" and nu = "1 / pi" and k = "1 / 2"
      and tol = "1 / 10 ^ 10" and max_iter = 200 and I = 2] I1 I2
  have "gamma_eff (mp_stub (Inr 0)) (1 / 2) (1 / 2) (1 / pi) (1 / 10 ^ 10) 200 =
      Inl ZeroDivisionError"
    by simp
  moreover
  from no_singularity_guard [where G = "\<lambda>i. 1" and K = "\<lambda>i. 1" and N = 0
      and mp = "mp_stub (Inr 0)" and n = "1 / 2" and nu = "1 / pi" and k = "1 / 10 ^ 12"
      and tol = "1 / 10 ^ 10" and max_iter = 1 and I = 1] I1
  have "gamma_eff (mp_stub (Inr 0)) (1 / 2) (1 / 10 ^ 12) (1 / pi) (1 / 10 ^ 10) 1 =
      Inl (RuntimeError (1 / pi))"
    by simp
  ultimately show ?thesis by simp
qed


text \<open>
  Claim C3 as stated fails for a denominator that only approaches zero. With
  \<open>k = 10\<^sup>-\<^sup>1\<^sup>2\<close> and a kernel value of \<open>1\<close> the denominator is \<open>10\<^sup>-\<^sup>1\<^sup>2\<close>; the update
  is the number \<open>10\<^sup>1\<^sup>2\<close>, not an error, and a solve that meets this denominator in its
  only iteration ends with the convergence error, not with a singularity error.
\<close>

theorem near_singular_counterexample:
  "Gamma_next (1 / 10 ^ 12) 1 = Inr (10 ^ 12) \<and>
   gamma_eff (mp_stub (Inr 0)) (1 / 2) (1 / 10 ^ 12) (1 / pi) (1 / 10 ^ 10) 1 =
     Inl (RuntimeError (1 / pi))"
proof -
  have I1: "I_value (mp_stub (Inr 0)) (1 / 2) (1 / pi) 1 = Inr 1"
    using I_value_stub_zero [of 1] by simp
  have "Gamma_next (1 / 10 ^ 12) 1 = Inr (10 ^ 12)"
    by (simp add: Gamma_next_def py_div_def)
  with I1 show ?thesis
    by (simp add: gamma_eff_def)
qed


section \<open>The kernel\<close>




text \<open>
  Claim C4, as amended. For \<open>n = 1\<close> or \<open>nu = 0\<close> (Python floats) nothing checks the
  domain and no domain error exists: the kernel is entered, and its first statement,
  the division of the prefactor by \<open>(n - 1) * nu\<close>, raises \<open>ZeroDivisionError\<close> before
  any call of the library, whatever the library is. The solver passes this error on
  from its first iteration; when \<open>max_iter\<close> allows no iteration the kernel is not
  called and the solver raises its convergence error.
\<close>

theorem kernel_rejects_domain:
  assumes "n = 1 \<or> nu = 0"
  shows "I_value mp n nu Gamma = Inl ZeroDivisionError \<and>
         gamma_eff mp n k nu tol (Suc m) = Inl ZeroDivisionError \<and>
         gamma_eff mp n k nu tol 0 = Inl (RuntimeError nu)"
  using assms by (simp add: gamma_eff_def I_value_domain)

text \<open>
  The theorem at \<open>n = 1\<close>, on a library whose hypergeometric evaluator fails at every
  call: its failure never shows.
\<close>

theorem kernel_rejects_domain_witness:
  "I_value (mp_stub (Inl NoConvergence)) 1 1 1 = Inl ZeroDivisionError \<and>
   gamma_eff (mp_stub (Inl NoConvergence)) 1 (1 / 10) 1 (1 / 10 ^ 10) (Suc 199) =
     Inl ZeroDivisionError \<and>
   gamma_eff (mp_stub (Inl NoConvergence)) 1 (1 / 10) 1 (1 / 10 ^ 10) 0 = Inl (RuntimeError 1)"
  using kernel_rejects_domain [of 1 1 "mp_stub (Inl NoConvergence)" 1 "1 / 10" "1 / 10 ^ 10" 199]
  by simp

text \<open>
  Claim C4 as stated fails: at \<open>n = 1\<close> the error comes out of the kernel itself and is
  the \<open>ZeroDivisionError\<close> of its division, and a solve with \<open>n = 1\<close> and \<open>nu = 0\<close> that
  is allowed no iteration raises the convergence error: the caller rejects nothing.
\<close>

theorem domain_error_counterexample:
  "I_value (mp_stub (Inr 1)) 1 1 1 = Inl ZeroDivisionError \<and>
   gamma_eff (mp_stub (Inr 1)) 1 (1 / 10) 0 (1 / 10 ^ 10) 0 = Inl (RuntimeError 0)"
  by (simp add: gamma_eff_def I_value_def)


section \<open>The sweep\<close>

lemma gamma_vals_raises:
  assumes "nu \<in> set nu_vals" and "gamma_eff mp n k nu (1 / 10 ^ 10) 200 = Inl e"
  shows "\<exists>e' nu'. gamma_vals mp n k nu_vals = Inl e' \<and> nu' \<in> set nu_vals \<and>
           gamma_eff mp n k nu' (1 / 10 ^ 10) 200 = Inl e'"
  using assms
proof (induction nu_vals)
  case Nil
  then show ?case by simp
next
  case (Cons v vs)
  show ?case
  proof (cases "gamma_eff mp n k v (1 / 10 ^ 10) 200")
    case (Inl e0)
    then show ?thesis by auto
  next
    case (Inr g)
    with Cons.prems have "nu \<in> set vs" by auto
    from Cons.IH [OF this Cons.prems(2)] obtain e' nu' where
      "gamma_vals mp n k vs = Inl e'" "nu' \<in> set vs" "gamma_eff mp n k nu' (1 / 10 ^ 10) 200 = Inl e'"
      by blast
    with Inr show ?thesis by auto
  qed
qed


text \<open>
  Claim C5, as amended. When the solve of some pair \<open>(n, nu)\<close> of the grid fails, the
  sweep does not record the failure and go on: it ends with an error, which is the
  error of a failing pair of the grid, and returns no curve at all.
\<close>

theorem sweep_aborts_on_failure:
  assumes "n \<in> set n_list" and "nu \<in> set nu_vals"
    and "gamma_eff mp n k nu (1 / 10 ^ 10) 200 = Inl e"
  shows "\<exists>e' n' nu'. sweep mp k n_list nu_vals = Inl e' \<and> n' \<in> set n_list \<and> nu' \<in> set nu_vals \<and>
           gamma_eff mp n' k nu' (1 / 10 ^ 10) 200 = Inl e'"
  using assms(1)
proof (induction n_list)
  case Nil
  then show ?case by simp
next
  case (Cons a as)
  show ?case
  proof (cases "gamma_vals mp a k nu_vals")
    case (Inl e0)
    have "\<exists>nu'. nu' \<in> set nu_vals \<and> gamma_eff mp a k nu' (1 / 10 ^ 10) 200 = Inl e0"
      using Inl
    proof (induction nu_vals)
      case Nil
      then show ?case by simp
    next
      case (Cons v vs)
      then show ?case
        by (cases "gamma_eff mp a k v (1 / 10 ^ 10) 200"; cases "gamma_vals mp a k vs") auto
    qed
    with Inl show ?thesis by auto
  next
    case (Inr c)
    have "n \<noteq> a"
    proof
      assume "n = a"
      with gamma_vals_raises [OF assms(2), of mp a k e] assms(3) Inr show False by auto
    qed
    with Cons.prems have "n \<in> set as" by simp
    from Cons.IH [OF this] obtain e' n' nu' where
      "sweep mp k as nu_vals = Inl e'" "n' \<in> set as" "nu' \<in> set nu_vals"
      "gamma_eff mp n' k nu' (1 / 10 ^ 10) 200 = Inl e'"
      by blast
    with Inr show ?thesis by auto
  qed
qed


text \<open>
  The theorem on a library whose hypergeometric series never converges, for the
  exponents \<open>0.2, 0.4\<close> and the grid \<open>1, 10\<close>: the failing pair it is given is the last one.
\<close>

theorem sweep_aborts_on_failure_witness:
  "\<exists>e' n' nu'. sweep (mp_stub (Inl NoConvergence)) (1 / 10) [1 / 5, 2 / 5] [1, 10] = Inl e' \<and>
      n' \<in> set [1 / 5, 2 / 5] \<and> nu' \<in> set [1, 10] \<and>
      gamma_eff (mp_stub (Inl NoConvergence)) n' (1 / 10) nu' (1 / 10 ^ 10) 200 = Inl e'"
proof -
  have "gamma_eff (mp_stub (Inl NoConvergence)) (2 / 5) (1 / 10) 10 (1 / 10 ^ 10) 200 = Inl NoConvergence"
    by (rule gamma_eff_kernel_error) (simp_all add: I_value_hyper_error)
  from sweep_aborts_on_failure [OF _ _ this, of "[1 / 5, 2 / 5]" "[1, 10]"]
  show ?thesis by simp
qed


text \<open>
  Claim C5 as stated fails: on that library the same sweep is the error of its first
  point, with no curves and no list of failed coordinates.
\<close>

theorem sweep_abort_counterexample:
  "sweep (mp_stub (Inl NoConvergence)) (1 / 10) [1 / 5, 2 / 5] [1, 10] = Inl NoConvergence"
proof -
  have "gamma_eff (mp_stub (Inl NoConvergence)) (1 / 5) (1 / 10) 1 (1 / 10 ^ 10) 200 = Inl NoConvergence"
    by (rule gamma_eff_kernel_error) (simp_all add: I_value_hyper_error)
  then show ?thesis by simp
qed


section \<open>From the unloading rate to \<open>nu\<close>\<close>

lemma C1_pos: "0 < C1"
  by (simp add: C1_def)

lemma C2_pos: "0 < C2"
  by (simp add: C2_def)

lemma nu_of_ru_strict_mono:
  assumes "0 < r1" and "r1 < r2"
  shows "nu_of_ru r1 < nu_of_ru r2"
proof -
  from assms C2_pos have "0 \<le> r1 / C2" and "r1 / C2 < r2 / C2"
    by (simp_all add: divide_strict_right_mono)
  then have "(r1 / C2) powr 1.171 < (r2 / C2) powr 1.171"
    by (intro powr_less_mono2) simp_all
  with C1_pos show ?thesis
    by (simp add: nu_of_ru_def)
qed

lemma nu_of_ru_pos: "0 < r \<Longrightarrow> 0 < nu_of_ru r"
  using C1_pos C2_pos by (simp add: nu_of_ru_def)

lemma nu_of_ru_inverse:
  assumes "0 < r"
  shows "C2 * (nu_of_ru r / C1) powr (1000 / 1171) = r"
proof -
  from assms C2_pos have pos: "0 < r / C2"
    by simp
  from C1_pos have "nu_of_ru r / C1 = (r / C2) powr 1.171"
    by (simp add: nu_of_ru_def)
  then have "(nu_of_ru r / C1) powr (1000 / 1171) = (r / C2) powr 1"
    by (simp add: powr_powr)
  also from pos have "\<dots> = r / C2"
    by (intro powr_one) simp
  finally show ?thesis
    using C2_pos by simp
qed

lemma nu_of_ru_inverse':
  assumes "0 < v"
  shows "nu_of_ru (C2 * (v / C1) powr (1000 / 1171)) = v"
proof -
  from assms C1_pos have pos: "0 < v / C1"
    by simp
  from C2_pos have "C2 * (v / C1) powr (1000 / 1171) / C2 = (v / C1) powr (1000 / 1171)"
    by simp
  then have "nu_of_ru (C2 * (v / C1) powr (1000 / 1171)) = C1 * ((v / C1) powr (1000 / 1171)) powr 1.171"
    by (simp add: nu_of_ru_def)
  also have "\<dots> = C1 * (v / C1) powr 1"
    by (simp add: powr_powr)
  also from pos have "\<dots> = C1 * (v / C1)"
    by (simp del: powr_one')
  finally show ?thesis
    using C1_pos by simp
qed

lemma nu_of_ru_bij: "bij_betw nu_of_ru {0<..} {0<..}"
proof (rule bij_betw_byWitness [where f' = "\<lambda>v. C2 * (v / C1) powr (1000 / 1171)"])
  show "\<forall>r\<in>{0<..}. C2 * (nu_of_ru r / C1) powr (1000 / 1171) = r"
    by (simp add: nu_of_ru_inverse)
  show "\<forall>v\<in>{0<..}. nu_of_ru (C2 * (v / C1) powr (1000 / 1171)) = v"
    by (simp add: nu_of_ru_inverse')
  show "nu_of_ru ` {0<..} \<subseteq> {0<..}"
    by (auto simp: nu_of_ru_pos)
  show "(\<lambda>v. C2 * (v / C1) powr (1000 / 1171)) ` {0<..} \<subseteq> {0<..}"
    using C1_pos C2_pos by auto
qed


text \<open>
  Claim C9. The mapping is \<open>nu = C1 \<cdot> (r_u / C2)\<^bsup>1.171\<^esup>\<close> with \<open>C1 = 2.887\<close> and
  \<open>C2 = 3.24 \<cdot> \<pi>\<^bsup>2/3\<^esup>\<close>; on the positive rates it is strictly increasing, it is a
  bijection onto its range, which is the positive reals, and the inverse mapping
  \<open>nu \<mapsto> C2 \<cdot> (nu / C1)\<^bsup>1/1.171\<^esup>\<close> recovers the rate. (Over the reals the recovery is
  exact; the rounding of floating-point arithmetic is not part of the model.)
\<close>

theorem nu_of_ru_increasing_bijection:
  "nu_of_ru ru = 2.887 * (ru / (3.24 * pi powr (2 / 3))) powr 1.171 \<and>
   (\<forall>r1 r2. 0 < r1 \<and> r1 < r2 \<longrightarrow> nu_of_ru r1 < nu_of_ru r2) \<and>
   bij_betw nu_of_ru {0<..} {0<..} \<and>
   (\<forall>r. 0 < r \<longrightarrow> C2 * (nu_of_ru r / C1) powr (1000 / 1171) = r)"
proof (intro conjI allI impI)
  show "nu_of_ru ru = 2.887 * (ru / (3.24 * pi powr (2 / 3))) powr 1.171"
    by (simp add: nu_of_ru_def C1_def C2_def)
  show "nu_of_ru r1 < nu_of_ru r2" if "0 < r1 \<and> r1 < r2" for r1 r2
    using that by (simp add: nu_of_ru_strict_mono)
  show "bij_betw nu_of_ru {0<..} {0<..}"
    by (rule nu_of_ru_bij)
  show "C2 * (nu_of_ru r / C1) powr (1000 / 1171) = r" if "0 < r" for r
    using that by (rule nu_of_ru_inverse)
qed


text \<open>The theorem at the rates \<open>1\<close> and \<open>2\<close>.\<close>

theorem nu_of_ru_increasing_bijection_witness:
  "nu_of_ru 1 < nu_of_ru 2 \<and> C2 * (nu_of_ru 1 / C1) powr (1000 / 1171) = 1"
  using nu_of_ru_increasing_bijection [of 1] by simp


end
